theory Spec2Isabelle
  imports Complex_Main "HOL-Library.Multiset"
begin

section \<open>Label generation from the benchmark endpoints (label_benchmark.py)\<close>

text \<open>
  A shallow embedding of \<^verbatim>\<open>icu_benchmarks/labels/label_benchmark.py\<close>.

  Conventions of the embedding:
  \<^item> a data frame is the list of its rows, in row order; the columns the code reads are
    the fields of a row record;
  \<^item> a float is a \<open>real option\<close>: \<open>None\<close> is the not-a-number sentinel ("unknown"),
    \<open>Some r\<close> a number (rounding of floating-point arithmetic is not modelled);
  \<^item> an exception is a value of the type \<open>error\<close>; a function that can raise returns
    \<open>error + 'a\<close>, with \<open>Inl\<close> the exception;
  \<^item> \<^verbatim>\<open>STEPS_PER_HOUR\<close>, imported from a constants module that is not part of the
    sources at hand, is the parameter \<open>sph\<close>.
\<close>

subsection \<open>Exceptions\<close>

datatype error =
    AssertionError
  | ValueError
  | TypeError
  | IndexError
  | KeyError
  | ZeroDivisionError
  | LengthMismatch

text \<open>Statements in sequence: an exception of the first ends the sequence.\<close>

definition and_then :: "error + 'a \<Rightarrow> ('a \<Rightarrow> error + 'b) \<Rightarrow> error + 'b" where
  "and_then m f = (case m of Inl err \<Rightarrow> Inl err | Inr x \<Rightarrow> f x)"

subsection \<open>Frames\<close>

type_synonym label_arr = "real option list"

text \<open>A row of the imputed table: patient id, absolute and relative timestamp, the
  cumulative counts of real heart-rate and urine measurements, body weight (vm131) and
  urine output (vm24).\<close>

record pat_row =
  p_pid :: int
  p_datetime :: int
  p_rel_datetime :: real
  vm1_IMPUTED_STATUS_CUM_COUNT :: nat
  vm24_IMPUTED_STATUS_CUM_COUNT :: nat
  vm131 :: "real option"
  vm24 :: "real option"

text \<open>A row of the endpoint table; \<open>'r\<close> is the type of the raw respiratory status.\<close>

record 'r endpoint_row =
  e_pid :: int
  e_datetime :: int
  circ_failure_status :: "real option"
  resp_failure_status :: 'r

text \<open>An endpoint frame as an object that \<^verbatim>\<open>set_index(..., inplace=True)\<close> can change:
  its rows, and whether the timestamp has been moved from the columns to the index
  (\<open>e_datetime\<close> of a row is then the row's index label).\<close>

record 'r endpoint_df =
  ep_rows :: "'r endpoint_row list"
  ep_datetime_is_index :: bool

text \<open>The cells of the static table, as Python sees them: a discharge status is a
  string or missing (not-a-number or \<^verbatim>\<open>None\<close>), a severity group a float or missing.\<close>

datatype discharge_val = DStr string | DNaN | DNone

datatype score_val = SFloat real | SNaN | SNone

record static_row =
  s_pid :: int
  discharge_status :: discharge_val
  APACHE_II_Group :: score_val
  APACHE_IV_Group :: score_val

text \<open>The frame \<^verbatim>\<open>gen_label\<close> returns: one field per key of \<^verbatim>\<open>output_df_dict\<close>, in the
  order of insertion. The three key names taken from \<^verbatim>\<open>configs\<close> and the seven label
  names are taken to be pairwise distinct.\<close>

record label_df =
  abs_datetime :: "int list"
  rel_datetime :: "real list"
  patient_id :: "int list"
  mortality :: label_arr
  circ_failure :: label_arr
  resp_failure :: label_arr
  urine_reg :: label_arr
  urine_binary :: label_arr
  phenotyping :: label_arr
  los :: label_arr

text \<open>The entries of \<^verbatim>\<open>configs\<close> that decide what is computed: the two severity-group
  tables, handed on to \<^verbatim>\<open>merge_apache_groups\<close>, and the debug switch. The three column-name
  keys select the fields \<open>p_datetime\<close>, \<open>p_rel_datetime\<close> and \<open>p_pid\<close> of an imputed row and
  name the first three columns of the output; directories and paths belong to reading and
  writing files.\<close>

type_synonym apache_map = "(real \<times> real) list"

record configs =
  APACHE_II_map :: apache_map
  APACHE_IV_map :: apache_map
  debug_mode :: bool

text \<open>What the code reads from outside the program: whether the batch file of imputed data
  exists (\<^verbatim>\<open>os.path.exists\<close>), and whether the root logger is enabled for the level INFO.\<close>

record env =
  path_exists :: bool
  info_enabled :: bool

subsection \<open>The helpers of \<^verbatim>\<open>icu_benchmarks.labels.utils\<close>\<close>

text \<open>
  The module \<^verbatim>\<open>utils\<close> is not part of the sources at hand. The two helpers the design
  document fixes completely are modelled from it below; the other five, whose constants and
  policies the document leaves open, are parameters, collected in the record \<open>utils\<close>.
\<close>

record 'r utils =
  get_hr_status :: "nat list \<Rightarrow> bool list"
  transition_to_failure :: "nat \<Rightarrow> real option list \<Rightarrow> nat \<Rightarrow> nat \<Rightarrow> label_arr"
  get_any_resp_label :: "'r list \<Rightarrow> real option list"
  future_urine_output ::
    "nat \<Rightarrow> real option list \<Rightarrow> nat list \<Rightarrow> real option list \<Rightarrow> nat \<Rightarrow> label_arr \<times> label_arr"
  merge_apache_groups ::
    "real option \<Rightarrow> real option \<Rightarrow> apache_map \<Rightarrow> apache_map \<Rightarrow> real option"

text \<open>Modelled from the spec: \<^verbatim>\<open>utils.convolve_hr\<close> (the Label Masking Operator, 4.2) is
  missing. "Output: a new array identical to the input except every position where validity
  is false is overwritten with the unknown sentinel ... fails with a LengthMismatch error"
  on inputs of unequal length.\<close>

definition convolve_hr :: "label_arr \<Rightarrow> bool list \<Rightarrow> error + label_arr" where
  "convolve_hr in_arr hr_status_arr =
     (if length in_arr \<noteq> length hr_status_arr then Inl LengthMismatch
      else Inr (map (\<lambda>(v, ok). if ok then v else None) (zip in_arr hr_status_arr)))"

text \<open>Modelled from the spec: \<^verbatim>\<open>utils.unique_label_at_hours\<close> (the Horizon-Gated Static
  Labeler, 4.3) is missing. "An array of length = stay length where every timestep before
  horizon_hours * steps_per_hour is unknown, and every timestep at or after that offset holds
  the constant scalar value", the scalar possibly unknown itself.\<close>

definition unique_label_at_hours :: "nat \<Rightarrow> nat \<Rightarrow> real option \<Rightarrow> nat \<Rightarrow> label_arr" where
  "unique_label_at_hours sph stay_length status at_hours =
     map (\<lambda>t. if t < at_hours * sph then None else status) [0..<stay_length]"

subsection \<open>Library functions the code calls\<close>

text \<open>\<^verbatim>\<open>np.linspace(start, stop, num)\<close> with the end point included: \<open>num\<close> samples,
  \<open>start + i * step\<close> with \<open>step = (stop - start) / (num - 1)\<close>, the last one set to
  \<open>stop\<close> when \<open>num > 1\<close>; a single sample is \<open>start\<close>.\<close>

definition linspace :: "real \<Rightarrow> real \<Rightarrow> nat \<Rightarrow> real list" where
  "linspace start stop num =
     (if num = 0 then []
      else if num = 1 then [start]
      else map (\<lambda>i. if i = num - 1 then stop
                     else start + real i * ((stop - start) / real (num - 1))) [0..<num])"

text \<open>\<^verbatim>\<open>logging.info(msg, flush=True)\<close>: the keyword reaches \<^verbatim>\<open>Logger._log\<close>, which does
  not take it, when the logger is enabled for INFO; otherwise the call returns at once.\<close>

definition logging_info_flush :: "env \<Rightarrow> error + unit" where
  "logging_info_flush e = (if info_enabled e then Inl TypeError else Inr ())"

text \<open>\<^verbatim>\<open>df.set_index(keys=DATETIME, inplace=True, verify_integrity=True)\<close>: the timestamp
  column becomes the index of the very frame object; a frame without that column raises
  KeyError, duplicate timestamps raise ValueError, and then the frame is left as it was.\<close>

definition set_index :: "'r endpoint_df \<Rightarrow> error + 'r endpoint_df" where
  "set_index df =
     (if ep_datetime_is_index df then Inl KeyError
      else if \<not> distinct (map e_datetime (ep_rows df)) then Inl ValueError
      else Inr (df\<lparr>ep_datetime_is_index := True\<rparr>))"

text \<open>\<^verbatim>\<open>pd.DataFrame(output_df_dict)\<close>: the three series carry the index of the imputed
  frame; an array of another length raises ValueError.\<close>

definition pd_DataFrame :: "label_df \<Rightarrow> error + label_df" where
  "pd_DataFrame d =
     (let n = length (abs_datetime d) in
      if length (rel_datetime d) = n \<and> length (patient_id d) = n \<and> length (mortality d) = n
         \<and> length (circ_failure d) = n \<and> length (resp_failure d) = n
         \<and> length (urine_reg d) = n \<and> length (urine_binary d) = n
         \<and> length (phenotyping d) = n \<and> length (los d) = n
      then Inr d else Inl ValueError)"

definition nrows :: "label_df \<Rightarrow> nat" where
  "nrows d = length (abs_datetime d)"

subsection \<open>\<^verbatim>\<open>gen_label\<close>\<close>

text \<open>The comparison \<^verbatim>\<open>df_pat.datetime == df_endpoint.index\<close> raises ValueError on
  operands of different lengths; the \<^verbatim>\<open>assert\<close> on \<^verbatim>\<open>.all()\<close> raises AssertionError.\<close>

definition assert_aligned :: "int list \<Rightarrow> int list \<Rightarrow> error + unit" where
  "assert_aligned pat_times ep_index =
     (if length pat_times \<noteq> length ep_index then Inl ValueError
      else if pat_times \<noteq> ep_index then Inl AssertionError
      else Inr ())"

text \<open>\<^verbatim>\<open>np.linspace(stay_length / STEPS_PER_HOUR, 0, num=stay_length)\<close>; the division
  raises ZeroDivisionError for a zero divisor.\<close>

definition rem_los :: "nat \<Rightarrow> nat \<Rightarrow> error + label_arr" where
  "rem_los sph stay_length =
     (if sph = 0 then Inl ZeroDivisionError
      else Inr (map Some (linspace (real stay_length / real sph) 0 stay_length)))"

text \<open>The body of \<^verbatim>\<open>gen_label\<close> after the alignment assertion: the output dictionary,
  every channel masked with \<open>hr_status_arr\<close>, and the data frame built from it.\<close>

definition label_channels ::
  "'r utils \<Rightarrow> nat \<Rightarrow> pat_row list \<Rightarrow> 'r endpoint_df \<Rightarrow> bool option \<Rightarrow> real option
     \<Rightarrow> error + label_df" where
  "label_channels U sph df_pat df_endpoint mort_status apache_group =
     (let abs_time_col = map p_datetime df_pat;
          rel_time_col = map p_rel_datetime df_pat;
          patient_col = map p_pid df_pat;
          stay_length = length rel_time_col;
          hr_col = map vm1_IMPUTED_STATUS_CUM_COUNT df_pat;
          hr_status_arr = get_hr_status U hr_col;
          dynamic_mort_arr =
            unique_label_at_hours sph stay_length (map_option of_bool mort_status) 24;
          circ_failure_col = map circ_failure_status (ep_rows df_endpoint);
          dynamic_circ_failure = transition_to_failure U sph circ_failure_col 0 12;
          pre_resp_arr = map resp_failure_status (ep_rows df_endpoint);
          ann_resp_arr = get_any_resp_label U pre_resp_arr;
          dynamic_resp_failure = transition_to_failure U sph ann_resp_arr 0 12;
          weight_col = map vm131 df_pat;
          urine_col = map vm24 df_pat;
          urine_meas_arr = map vm24_IMPUTED_STATUS_CUM_COUNT df_pat;
          urine = future_urine_output U sph urine_col urine_meas_arr weight_col 2;
          apache_arr = unique_label_at_hours sph stay_length apache_group 24
      in
      and_then (convolve_hr dynamic_mort_arr hr_status_arr) (\<lambda>mort.
      and_then (convolve_hr dynamic_circ_failure hr_status_arr) (\<lambda>circ.
      and_then (convolve_hr dynamic_resp_failure hr_status_arr) (\<lambda>resp.
      and_then (convolve_hr (fst urine) hr_status_arr) (\<lambda>urine_reg_arr.
      and_then (convolve_hr (snd urine) hr_status_arr) (\<lambda>urine_binary_arr.
      and_then (convolve_hr apache_arr hr_status_arr) (\<lambda>pheno.
      and_then (rem_los sph stay_length) (\<lambda>rem_los_arr.
      and_then (convolve_hr rem_los_arr hr_status_arr) (\<lambda>rl.
        pd_DataFrame
          \<lparr>abs_datetime = abs_time_col, rel_datetime = rel_time_col, patient_id = patient_col,
           mortality = mort, circ_failure = circ, resp_failure = resp,
           urine_reg = urine_reg_arr, urine_binary = urine_binary_arr,
           phenotyping = pheno, los = rl\<rparr>)))))))))"

text \<open>\<^verbatim>\<open>gen_label\<close> returns what the call gives (an exception, \<^verbatim>\<open>None\<close> or the frame of
  labels) together with the two frame objects it was given, as the call leaves them: no
  statement assigns to the imputed frame, and \<^verbatim>\<open>set_index\<close> changes the endpoint frame. The keyword
  arguments \<^verbatim>\<open>mort_status\<close> and \<^verbatim>\<open>apache_group\<close> default to \<^verbatim>\<open>None\<close>, which a float array
  stores as not-a-number; a boolean is stored as 0 or 1.\<close>

definition gen_label ::
  "'r utils \<Rightarrow> nat \<Rightarrow> env \<Rightarrow> pat_row list \<Rightarrow> 'r endpoint_df \<Rightarrow> bool option \<Rightarrow> real option
     \<Rightarrow> (error + label_df option) \<times> pat_row list \<times> 'r endpoint_df" where
  "gen_label U sph e df_pat df_endpoint mort_status apache_group =
     (if df_pat = [] \<or> ep_rows df_endpoint = [] then
        (case logging_info_flush e of
           Inl err \<Rightarrow> (Inl err, df_pat, df_endpoint)
         | Inr _ \<Rightarrow> (Inr None, df_pat, df_endpoint))
      else
        case set_index df_endpoint of
          Inl err \<Rightarrow> (Inl err, df_pat, df_endpoint)
        | Inr df_endpoint' \<Rightarrow>
            (case assert_aligned (map p_datetime df_pat) (map e_datetime (ep_rows df_endpoint')) of
               Inl err \<Rightarrow> (Inl err, df_pat, df_endpoint')
             | Inr _ \<Rightarrow>
                 (case label_channels U sph df_pat df_endpoint' mort_status apache_group of
                    Inl err \<Rightarrow> (Inl err, df_pat, df_endpoint')
                  | Inr output_df \<Rightarrow> (Inr (Some output_df), df_pat, df_endpoint'))))"

subsection \<open>\<^verbatim>\<open>label_gen_benchmark\<close>\<close>

text \<open>\<^verbatim>\<open>Series.unique()\<close>: the distinct values, in the order of their first appearance.\<close>

definition unique :: "int list \<Rightarrow> int list" where
  "unique xs = rev (remdups (rev xs))"

text \<open>\<^verbatim>\<open>is_df_sorted\<close>. A timestamp (\<^verbatim>\<open>datetime64[ns]\<close>) is a count of nanoseconds in 64
  bits, and \<^verbatim>\<open>Series.diff()\<close> subtracts consecutive timestamps in 64 bits: the difference
  wraps around, and the bit pattern \<open>- 2 ^ 63\<close> is the missing value (not-a-time), as a
  timestamp and as a difference. \<^verbatim>\<open>dropna()\<close> removes the missing differences (the first row
  has none to its left and is not listed); the differences kept, converted to floats, which
  keeps their sign, must all be non-negative.\<close>

definition NaT :: int where
  "NaT = - (2 ^ 63)"

definition wrap64 :: "int \<Rightarrow> int" where
  "wrap64 x = (x + 2 ^ 63) mod 2 ^ 64 - 2 ^ 63"

definition diff :: "int list \<Rightarrow> int option list" where
  "diff xs =
     map (\<lambda>(a, b). if a = NaT \<or> b = NaT \<or> wrap64 (b - a) = NaT then None
                  else Some (wrap64 (b - a)))
       (zip xs (tl xs))"

definition dropna :: "'a option list \<Rightarrow> 'a list" where
  "dropna xs = map the (filter (\<lambda>x. x \<noteq> None) xs)"

definition is_df_sorted :: "'r endpoint_row list \<Rightarrow> bool" where
  "is_df_sorted df = list_all (\<lambda>d. 0 \<le> d) (dropna (diff (map e_datetime df)))"

text \<open>\<^verbatim>\<open>df.sort_values(by=DATETIME, kind="mergesort")\<close>: a stable sort by timestamp; rows
  whose timestamp is missing come last, in their order (\<^verbatim>\<open>na_position\<close> is left at its
  default).\<close>

definition sort_values :: "'r endpoint_row list \<Rightarrow> 'r endpoint_row list" where
  "sort_values df =
     sort_key e_datetime (filter (\<lambda>r. e_datetime r \<noteq> NaT) df)
       @ filter (\<lambda>r. e_datetime r = NaT) df"

text \<open>Lines 180 and 181: the endpoint rows handed to \<^verbatim>\<open>gen_label\<close>.\<close>

definition sorted_endpoint :: "'r endpoint_row list \<Rightarrow> 'r endpoint_row list" where
  "sorted_endpoint df_endpoint =
     (if \<not> is_df_sorted df_endpoint then sort_values df_endpoint else df_endpoint)"

text \<open>\<^verbatim>\<open>str(df_static[df_static[PID] == pid][DISCHARGE_NAME].values[0])\<close>: the first
  static row of the patient; indexing an empty array raises IndexError.\<close>

fun py_str :: "discharge_val \<Rightarrow> string" where
  "py_str (DStr s) = s"
| "py_str DNaN = ''nan''"
| "py_str DNone = ''None''"

definition mort_code :: "static_row list \<Rightarrow> int \<Rightarrow> error + string" where
  "mort_code df_static pid =
     (case filter (\<lambda>r. s_pid r = pid) df_static of
        [] \<Rightarrow> Inl IndexError
      | r # _ \<Rightarrow> Inr (py_str (discharge_status r)))"

text \<open>The \<^verbatim>\<open>try\<close> statement of lines 143 to 149, applied to what the lookup gives: a
  ValueError or a TypeError is caught, any other exception goes on.\<close>

definition try_mort_status :: "error + string \<Rightarrow> error + bool" where
  "try_mort_status looked_up =
     (case looked_up of
        Inr code \<Rightarrow> Inr (code = ''dead'')
      | Inl err \<Rightarrow> if err = ValueError \<or> err = TypeError then Inr False else Inl err)"

text \<open>\<^verbatim>\<open>float(series)\<close>: a series of one element is converted through that element, any
  other length raises TypeError; \<^verbatim>\<open>float(None)\<close> raises TypeError.\<close>

fun py_float :: "score_val \<Rightarrow> error + real option" where
  "py_float (SFloat r) = Inr (Some r)"
| "py_float SNaN = Inr None"
| "py_float SNone = Inl TypeError"

definition float_of_series :: "score_val list \<Rightarrow> error + real option" where
  "float_of_series ser = (case ser of [v] \<Rightarrow> py_float v | _ \<Rightarrow> Inl TypeError)"

text \<open>\<^verbatim>\<open>pd.concat(all_out_dfs, axis=0)\<close>: the frames one below the other; an empty list
  raises ValueError.\<close>

definition pd_concat :: "label_df list \<Rightarrow> error + label_df" where
  "pd_concat dfs =
     (if dfs = [] then Inl ValueError
      else Inr \<lparr>abs_datetime = concat (map abs_datetime dfs),
                rel_datetime = concat (map rel_datetime dfs),
                patient_id = concat (map patient_id dfs),
                mortality = concat (map mortality dfs),
                circ_failure = concat (map circ_failure dfs),
                resp_failure = concat (map resp_failure dfs),
                urine_reg = concat (map urine_reg dfs),
                urine_binary = concat (map urine_binary dfs),
                phenotyping = concat (map phenotyping dfs),
                los = concat (map los dfs)\<rparr>)"

text \<open>The two variables the loop over the patients updates.\<close>

record batch_state =
  n_skipped_patients :: nat
  all_out_dfs :: "label_df list"

definition skip_patient :: "batch_state \<Rightarrow> batch_state" where
  "skip_patient st = st\<lparr>n_skipped_patients := n_skipped_patients st + 1\<rparr>"

text \<open>One pass through the body of the loop, for the patient \<open>pid\<close>: the new state, or
  the exception that leaves the loop. The three tables, which the function reads from files
  before the loop, are arguments. Selecting the rows of a patient cannot raise here, so the
  handler around the selection of the endpoint rows (lines 162 to 167) has no branch; calls of
  \<^verbatim>\<open>logging.info\<close> without the keyword \<^verbatim>\<open>flush\<close>, among them the progress report under
  \<^verbatim>\<open>verbose\<close>, and \<^verbatim>\<open>gc.collect()\<close> change nothing and are left out.\<close>

definition process_patient ::
  "'r utils \<Rightarrow> nat \<Rightarrow> configs \<Rightarrow> env \<Rightarrow> static_row list \<Rightarrow> pat_row list
     \<Rightarrow> 'r endpoint_row list \<Rightarrow> int \<Rightarrow> batch_state \<Rightarrow> error + batch_state" where
  "process_patient U sph cfg e df_static df_all_pats df_all_endpoints pid st =
     and_then (try_mort_status (mort_code df_static pid)) (\<lambda>mort_status.
     and_then (float_of_series
                 (map APACHE_II_Group (filter (\<lambda>r. s_pid r = pid) df_static))) (\<lambda>apache_ii_group.
     and_then (float_of_series
                 (map APACHE_IV_Group (filter (\<lambda>r. s_pid r = pid) df_static))) (\<lambda>apache_iv_group.
      let apache_pat_group = merge_apache_groups U apache_ii_group apache_iv_group
                               (APACHE_II_map cfg) (APACHE_IV_map cfg)
      in
      if \<not> path_exists e then Inr (skip_patient st)
      else
        let df_endpoint = filter (\<lambda>r. e_pid r = pid) df_all_endpoints;
            df_pat = filter (\<lambda>r. p_pid r = pid) df_all_pats
        in
        if df_pat = [] \<or> df_endpoint = [] then
          and_then (logging_info_flush e) (\<lambda>_. Inr (skip_patient st))
        else
          and_then (fst (gen_label U sph e df_pat
                      \<lparr>ep_rows = sorted_endpoint df_endpoint, ep_datetime_is_index = False\<rparr>
                      (Some mort_status) apache_pat_group)) (\<lambda>df_label.
            case df_label of
              None \<Rightarrow> Inr (skip_patient st)
            | Some df_label \<Rightarrow>
                if nrows df_label \<noteq> length df_pat then Inl AssertionError
                else if \<not> debug_mode cfg
                  then Inr (st\<lparr>all_out_dfs := all_out_dfs st @ [df_label]\<rparr>)
                  else Inr st))))"

text \<open>The \<^verbatim>\<open>for\<close> loop: an exception of the body ends it.\<close>

fun patient_loop ::
  "(int \<Rightarrow> batch_state \<Rightarrow> error + batch_state) \<Rightarrow> int list \<Rightarrow> batch_state
     \<Rightarrow> error + batch_state" where
  "patient_loop body [] st = Inr st"
| "patient_loop body (pid # pids) st =
     (case body pid st of Inl err \<Rightarrow> Inl err | Inr st' \<Rightarrow> patient_loop body pids st')"

text \<open>What a run of \<^verbatim>\<open>label_gen_benchmark\<close> leaves behind: the count of skipped patients
  and the table written for the batch (none in debug mode).\<close>

record batch_result =
  skipped :: nat
  written :: "label_df option"

definition label_gen_benchmark ::
  "'r utils \<Rightarrow> nat \<Rightarrow> configs \<Rightarrow> env \<Rightarrow> static_row list \<Rightarrow> pat_row list
     \<Rightarrow> 'r endpoint_row list \<Rightarrow> error + batch_result" where
  "label_gen_benchmark U sph cfg e df_static df_all_pats df_all_endpoints =
     (let all_pids = unique (map p_pid df_all_pats) in
      case patient_loop
             (process_patient U sph cfg e df_static df_all_pats df_all_endpoints)
             all_pids \<lparr>n_skipped_patients = 0, all_out_dfs = []\<rparr> of
        Inl err \<Rightarrow> Inl err
      | Inr st \<Rightarrow>
          if \<not> debug_mode cfg then
            (case pd_concat (all_out_dfs st) of
               Inl err \<Rightarrow> Inl err
             | Inr combined_df \<Rightarrow>
                 Inr \<lparr>skipped = n_skipped_patients st, written = Some combined_df\<rparr>)
          else Inr \<lparr>skipped = n_skipped_patients st, written = None\<rparr>)"


subsection \<open>Sample data\<close>

text \<open>Concrete values for the parameters, to run the definitions on: helpers that keep the
  length of their input, a stay of \<open>n\<close> timesteps five minutes apart with a new heart-rate
  measurement at every step, the endpoint rows on the same time grid, and a static record.\<close>

definition sample_utils :: "real option utils" where
  "sample_utils =
     \<lparr>get_hr_status = (\<lambda>hr_col.
        map (\<lambda>t. if t = 0 then 0 < hr_col ! 0 else hr_col ! (t - 1) < hr_col ! t)
          [0..<length hr_col]),
      transition_to_failure = (\<lambda>sph arr lhours rhours.
        map (\<lambda>t. Some (of_bool (list_ex (\<lambda>k. arr ! k = Some 1)
                     [t + lhours * sph..<min (length arr) (t + rhours * sph)])))
          [0..<length arr]),
      get_any_resp_label = (\<lambda>arr. arr),
      future_urine_output = (\<lambda>sph urine_col urine_meas_arr weight_col rhours.
        (map (\<lambda>_. None) urine_col, map (\<lambda>_. None) urine_col)),
      merge_apache_groups = (\<lambda>apache_ii_group apache_iv_group apache_ii_map apache_iv_map.
        case apache_iv_group of
          Some g \<Rightarrow> map_of apache_iv_map g
        | None \<Rightarrow> (case apache_ii_group of Some g \<Rightarrow> map_of apache_ii_map g | None \<Rightarrow> None))\<rparr>"

definition sample_stay :: "int \<Rightarrow> nat \<Rightarrow> pat_row list" where
  "sample_stay pid n =
     map (\<lambda>i. \<lparr>p_pid = pid, p_datetime = 300 * int i, p_rel_datetime = 300 * real i,
               vm1_IMPUTED_STATUS_CUM_COUNT = i + 1, vm24_IMPUTED_STATUS_CUM_COUNT = 0,
               vm131 = Some 70, vm24 = None\<rparr>) [0..<n]"

definition sample_endpoint :: "int \<Rightarrow> nat \<Rightarrow> real option endpoint_row list" where
  "sample_endpoint pid n =
     map (\<lambda>i. \<lparr>e_pid = pid, e_datetime = 300 * int i, circ_failure_status = Some 0,
               resp_failure_status = Some 0\<rparr>) [0..<n]"

definition sample_static :: "int \<Rightarrow> static_row" where
  "sample_static pid =
     \<lparr>s_pid = pid, discharge_status = DStr ''alive'', APACHE_II_Group = SFloat 3,
      APACHE_IV_Group = SNaN\<rparr>"

definition sample_configs :: configs where
  "sample_configs = \<lparr>APACHE_II_map = [(3, 1)], APACHE_IV_map = [], debug_mode = False\<rparr>"

definition quiet_env :: env where
  "quiet_env = \<lparr>path_exists = True, info_enabled = False\<rparr>"

definition info_env :: env where
  "info_env = \<lparr>path_exists = True, info_enabled = True\<rparr>"


text \<open>Lines 57 and 58, the validity mask from the cumulative count of heart-rate measurements,
  and line 94, the two urine targets before masking.\<close>

abbreviation hr_status_of :: "'r utils \<Rightarrow> pat_row list \<Rightarrow> bool list" where
  "hr_status_of U df_pat \<equiv> get_hr_status U (map vm1_IMPUTED_STATUS_CUM_COUNT df_pat)"

abbreviation urine_of :: "'r utils \<Rightarrow> nat \<Rightarrow> pat_row list \<Rightarrow> label_arr \<times> label_arr" where
  "urine_of U sph df_pat \<equiv>
     future_urine_output U sph (map vm24 df_pat) (map vm24_IMPUTED_STATUS_CUM_COUNT df_pat)
       (map vm131 df_pat) 2"

text \<open>An endpoint series one minute off the time grid of the stay, and a batch of two
  patients.\<close>

definition late_endpoint :: "int \<Rightarrow> nat \<Rightarrow> real option endpoint_row list" where
  "late_endpoint pid n = map (\<lambda>r. r\<lparr>e_datetime := e_datetime r + 60\<rparr>) (sample_endpoint pid n)"

definition two_stays :: "pat_row list" where
  "two_stays = sample_stay 1 2 @ sample_stay 2 2"

definition two_static :: "static_row list" where
  "two_static = [sample_static 1, sample_static 2]"


definition null_score_static :: "static_row list" where
  "null_score_static = [(sample_static 1)\<lparr>APACHE_II_Group := SNone\<rparr>]"

subsection \<open>Notions used in the statements\<close>


text \<open>A binary label array: every entry is 0 or 1, none is unknown. The specification
  (4.4) gives the Transition Window Detector, \<^verbatim>\<open>utils.transition_to_failure\<close>, a binary
  output.\<close>

definition is_binary :: "label_arr \<Rightarrow> bool" where
  "is_binary arr = list_all (\<lambda>x. x = Some 0 \<or> x = Some 1) arr"

text \<open>Lines 77 and 78, lines 83 to 85 and line 106: the two failure channels and the
  remaining length of stay before masking.\<close>

abbreviation circ_of :: "'r utils \<Rightarrow> nat \<Rightarrow> 'r endpoint_df \<Rightarrow> label_arr" where
  "circ_of U sph df_endpoint \<equiv>
     transition_to_failure U sph (map circ_failure_status (ep_rows df_endpoint)) 0 12"

abbreviation resp_of :: "'r utils \<Rightarrow> nat \<Rightarrow> 'r endpoint_df \<Rightarrow> label_arr" where
  "resp_of U sph df_endpoint \<equiv>
     transition_to_failure U sph
       (get_any_resp_label U (map resp_failure_status (ep_rows df_endpoint))) 0 12"

abbreviation los_of :: "nat \<Rightarrow> pat_row list \<Rightarrow> label_arr" where
  "los_of sph df_pat \<equiv>
     map Some (linspace (real (length df_pat) / real sph) 0 (length df_pat))"

section \<open>Properties\<close>

subsection \<open>Auxiliary facts\<close>

lemma and_then_simps [simp]:
  "and_then (Inl err) f = Inl err"
  "and_then (Inr x) f = f x"
  by (simp_all add: and_then_def)

lemma and_then_eq_Inr: "and_then m f = Inr y \<longleftrightarrow> (\<exists>x. m = Inr x \<and> f x = Inr y)"
  by (cases m) simp_all

lemma and_then_eq_Inl:
  "and_then m f = Inl err \<longleftrightarrow> m = Inl err \<or> (\<exists>x. m = Inr x \<and> f x = Inl err)"
  by (cases m) simp_all


lemma convolve_hr_Inr:
  assumes "convolve_hr a m = Inr b"
  shows "length m = length a" and "length b = length a"
    and "t < length a \<Longrightarrow> b ! t = (if m ! t then a ! t else None)"
  using assms by (auto simp: convolve_hr_def split: if_splits)

lemma convolve_hr_total:
  "length a = length m \<Longrightarrow> \<exists>b. convolve_hr a m = Inr b"
  by (simp add: convolve_hr_def)

lemma pd_DataFrame_Inr: "pd_DataFrame d = Inr d' \<Longrightarrow> d' = d"
  by (simp add: pd_DataFrame_def Let_def split: if_splits)

lemma pd_DataFrame_lengths:
  assumes "pd_DataFrame d = Inr d'"
  shows "length (rel_datetime d) = length (abs_datetime d)"
    "length (patient_id d) = length (abs_datetime d)"
    "length (mortality d) = length (abs_datetime d)"
    "length (circ_failure d) = length (abs_datetime d)"
    "length (resp_failure d) = length (abs_datetime d)"
    "length (urine_reg d) = length (abs_datetime d)"
    "length (urine_binary d) = length (abs_datetime d)"
    "length (phenotyping d) = length (abs_datetime d)"
    "length (los d) = length (abs_datetime d)"
  using assms by (simp_all add: pd_DataFrame_def Let_def split: if_splits)

lemma label_channels_Inr:
  assumes "label_channels U sph df_pat ep ms ag = Inr d"
  defines "hrm \<equiv> get_hr_status U (map vm1_IMPUTED_STATUS_CUM_COUNT df_pat)"
  defines "urine \<equiv> future_urine_output U sph (map vm24 df_pat)
                      (map vm24_IMPUTED_STATUS_CUM_COUNT df_pat) (map vm131 df_pat) 2"
  shows "abs_datetime d = map p_datetime df_pat"
    and "rel_datetime d = map p_rel_datetime df_pat"
    and "patient_id d = map p_pid df_pat"
    and "convolve_hr (unique_label_at_hours sph (length df_pat) (map_option of_bool ms) 24) hrm
           = Inr (mortality d)"
    and "convolve_hr (transition_to_failure U sph (map circ_failure_status (ep_rows ep)) 0 12) hrm
           = Inr (circ_failure d)"
    and "convolve_hr (transition_to_failure U sph
            (get_any_resp_label U (map resp_failure_status (ep_rows ep))) 0 12) hrm
           = Inr (resp_failure d)"
    and "convolve_hr (fst urine) hrm = Inr (urine_reg d)"
    and "convolve_hr (snd urine) hrm = Inr (urine_binary d)"
    and "convolve_hr (unique_label_at_hours sph (length df_pat) ag 24) hrm = Inr (phenotyping d)"
    and "\<exists>rl. rem_los sph (length df_pat) = Inr rl \<and> convolve_hr rl hrm = Inr (los d)"
    and "pd_DataFrame d = Inr d"
  using assms(1) unfolding hrm_def urine_def label_channels_def Let_def
  by (auto simp: and_then_eq_Inr dest: pd_DataFrame_Inr)

lemma gen_label_Some:
  assumes "fst (gen_label U sph e df_pat ep ms ag) = Inr (Some d)"
  shows "df_pat \<noteq> []" and "ep_rows ep \<noteq> []"
    and "\<not> ep_datetime_is_index ep" and "distinct (map e_datetime (ep_rows ep))"
    and "map p_datetime df_pat = map e_datetime (ep_rows ep)"
    and "label_channels U sph df_pat (ep\<lparr>ep_datetime_is_index := True\<rparr>) ms ag = Inr d"
  using assms
  by (auto simp: gen_label_def set_index_def assert_aligned_def logging_info_flush_def
      split: if_splits sum.splits)

lemma gen_label_None:
  "fst (gen_label U sph e df_pat ep ms ag) = Inr None
     \<longleftrightarrow> (df_pat = [] \<or> ep_rows ep = []) \<and> \<not> info_enabled e"
  by (auto simp: gen_label_def set_index_def assert_aligned_def logging_info_flush_def
      split: if_splits sum.splits)

lemma gen_label_snd:
  "snd (gen_label U sph e df_pat ep ms ag) =
     (df_pat,
      if df_pat \<noteq> [] \<and> ep_rows ep \<noteq> [] \<and> \<not> ep_datetime_is_index ep
         \<and> distinct (map e_datetime (ep_rows ep))
      then ep\<lparr>ep_datetime_is_index := True\<rparr> else ep)"
  by (auto simp: gen_label_def set_index_def assert_aligned_def logging_info_flush_def
      split: if_splits sum.splits)

lemma linspace_nth:
  assumes "2 \<le> n" "i < n"
  shows "linspace start 0 n ! i = start * (1 - real i / real (n - 1))"
proof -
  have n1: "real (n - 1) \<noteq> 0" using assms by simp
  show ?thesis
  proof (cases "i = n - 1")
    case True
    with assms n1 show ?thesis by (simp add: linspace_def)
  next
    case False
    with assms n1 show ?thesis
      by (simp add: linspace_def field_simps)
  qed
qed

lemma linspace_length: "length (linspace start stop n) = n"
  by (simp add: linspace_def)

subsection \<open>Facts about \<^verbatim>\<open>gen_label\<close>\<close>

lemma gen_label_total:
  assumes "df_pat \<noteq> []" and "\<not> ep_datetime_is_index ep"
    and "distinct (map e_datetime (ep_rows ep))"
    and "map p_datetime df_pat = map e_datetime (ep_rows ep)"
    and "sph \<noteq> 0"
    and "length (hr_status_of U df_pat) = length df_pat"
    and "length (transition_to_failure U sph (map circ_failure_status (ep_rows ep)) 0 12)
           = length df_pat"
    and "length (transition_to_failure U sph
            (get_any_resp_label U (map resp_failure_status (ep_rows ep))) 0 12) = length df_pat"
    and "length (fst (urine_of U sph df_pat)) = length df_pat"
    and "length (snd (urine_of U sph df_pat)) = length df_pat"
  shows "\<exists>d. fst (gen_label U sph e df_pat ep ms ag) = Inr (Some d)"
proof -
  from assms(1,4) have ne: "ep_rows ep \<noteq> []" by auto
  have len: "length (map p_datetime df_pat) = length (map e_datetime (ep_rows ep))"
    using assms(4) by simp
  have "\<exists>d. label_channels U sph df_pat (ep\<lparr>ep_datetime_is_index := True\<rparr>) ms ag = Inr d"
    using assms(5-10)
    by (simp add: label_channels_def Let_def convolve_hr_def rem_los_def pd_DataFrame_def
        unique_label_at_hours_def linspace_length)
  then obtain d where
    "label_channels U sph df_pat (ep\<lparr>ep_datetime_is_index := True\<rparr>) ms ag = Inr d" ..
  with assms(1-4) ne show ?thesis
    by (simp add: gen_label_def set_index_def assert_aligned_def)
qed

lemma sample_hr_status:
  "length (hr_status_of sample_utils (sample_stay pid n)) = n"
  "t < n \<Longrightarrow> hr_status_of sample_utils (sample_stay pid n) ! t"
  by (simp_all add: sample_utils_def sample_stay_def nth_append)

lemma sample_gen_label:
  assumes "0 < n" and "0 < sph"
  shows "\<exists>d. fst (gen_label sample_utils sph e (sample_stay pid n)
                 \<lparr>ep_rows = sample_endpoint pid n, ep_datetime_is_index = False\<rparr> ms ag)
             = Inr (Some d)"
proof (rule gen_label_total)
  show "sample_stay pid n \<noteq> []" using assms by (simp add: sample_stay_def)
  show "distinct (map e_datetime (ep_rows
          \<lparr>ep_rows = sample_endpoint pid n, ep_datetime_is_index = False\<rparr>))"
    by (simp add: sample_endpoint_def comp_def distinct_map inj_on_def)
  show "map p_datetime (sample_stay pid n) = map e_datetime (ep_rows
          \<lparr>ep_rows = sample_endpoint pid n, ep_datetime_is_index = False\<rparr>)"
    by (simp add: sample_endpoint_def sample_stay_def)
qed (use assms in \<open>simp_all add: sample_utils_def sample_stay_def sample_endpoint_def\<close>)


lemma unique_label_nth:
  "t < n \<Longrightarrow> unique_label_at_hours sph n status h ! t = (if t < h * sph then None else status)"
  by (simp add: unique_label_at_hours_def)

lemma unique_label_length: "length (unique_label_at_hours sph n status h) = n"
  by (simp add: unique_label_at_hours_def)

lemma gen_label_channels:
  assumes "fst (gen_label U sph e df_pat ep ms ag) = Inr (Some d)"
  shows "convolve_hr (unique_label_at_hours sph (length df_pat) (map_option of_bool ms) 24)
           (hr_status_of U df_pat) = Inr (mortality d)"
    and "convolve_hr (transition_to_failure U sph (map circ_failure_status (ep_rows ep)) 0 12)
           (hr_status_of U df_pat) = Inr (circ_failure d)"
    and "convolve_hr (transition_to_failure U sph
            (get_any_resp_label U (map resp_failure_status (ep_rows ep))) 0 12)
           (hr_status_of U df_pat) = Inr (resp_failure d)"
    and "convolve_hr (fst (urine_of U sph df_pat)) (hr_status_of U df_pat) = Inr (urine_reg d)"
    and "convolve_hr (snd (urine_of U sph df_pat)) (hr_status_of U df_pat) = Inr (urine_binary d)"
    and "convolve_hr (unique_label_at_hours sph (length df_pat) ag 24)
           (hr_status_of U df_pat) = Inr (phenotyping d)"
    and "\<exists>rl. rem_los sph (length df_pat) = Inr rl
           \<and> convolve_hr rl (hr_status_of U df_pat) = Inr (los d)"
  using label_channels_Inr [OF gen_label_Some(6) [OF assms]] by simp_all

subsection \<open>The table \<^verbatim>\<open>gen_label\<close> returns\<close>

text \<open>Claim C4. Whenever \<^verbatim>\<open>gen_label\<close> returns a table, the table holds the absolute
  timestamps, the relative timestamps and the patient ids of the imputed rows, in their
  order, and the seven label channels, and every column has as many entries as the imputed
  series has rows (so has the endpoint series).\<close>

theorem gen_label_table_shape:
  assumes "fst (gen_label U sph e df_pat df_endpoint mort_status apache_group)
             = Inr (Some output_df)"
  shows "nrows output_df = length df_pat
    \<and> abs_datetime output_df = map p_datetime df_pat
    \<and> rel_datetime output_df = map p_rel_datetime df_pat
    \<and> patient_id output_df = map p_pid df_pat
    \<and> length (mortality output_df) = length df_pat
    \<and> length (circ_failure output_df) = length df_pat
    \<and> length (resp_failure output_df) = length df_pat
    \<and> length (urine_reg output_df) = length df_pat
    \<and> length (urine_binary output_df) = length df_pat
    \<and> length (phenotyping output_df) = length df_pat
    \<and> length (los output_df) = length df_pat
    \<and> length (ep_rows df_endpoint) = length df_pat"
proof -
  note lc = gen_label_Some(6) [OF assms]
  note cols = label_channels_Inr(1-3) [OF lc]
  note lens = pd_DataFrame_lengths [OF label_channels_Inr(11) [OF lc]]
  have "length (map p_datetime df_pat) = length (map e_datetime (ep_rows df_endpoint))"
    using gen_label_Some(5) [OF assms] by simp
  then have "length (ep_rows df_endpoint) = length df_pat" by simp
  with cols lens show ?thesis by (simp add: nrows_def)
qed

theorem gen_label_table_shape_witness:
  "\<exists>d. fst (gen_label sample_utils 12 quiet_env (sample_stay 7 3)
            \<lparr>ep_rows = sample_endpoint 7 3, ep_datetime_is_index = False\<rparr> (Some True) (Some 1))
          = Inr (Some d)
      \<and> nrows d = 3 \<and> abs_datetime d = [0, 300, 600] \<and> patient_id d = [7, 7, 7]
      \<and> length (los d) = 3"
proof -
  obtain d where d: "fst (gen_label sample_utils 12 quiet_env (sample_stay 7 3)
            \<lparr>ep_rows = sample_endpoint 7 3, ep_datetime_is_index = False\<rparr> (Some True) (Some 1))
          = Inr (Some d)"
    using sample_gen_label [of 3 12] by force
  have "map p_datetime (sample_stay 7 3) = [0, 300, 600]"
    "map p_pid (sample_stay 7 3) = [7, 7, 7]" "length (sample_stay 7 3) = 3"
    by (simp_all add: sample_stay_def upt_conv_Cons)
  with gen_label_table_shape [OF d] d show ?thesis by auto
qed

text \<open>Claim C5. Whenever \<^verbatim>\<open>gen_label\<close> returns a table, the mortality and the phenotyping
  channel are the masked output of the static labeler at 24 hours (unknown before
  \<open>24 * steps_per_hour\<close>, the scalar from there on, wherever the mask holds), the two failure
  channels the masked output of the transition detector with the window from 0 to 12 hours,
  and the two urine channels the masked output of the urine transform with 2 hours.\<close>

theorem gen_label_default_bounds:
  assumes "fst (gen_label U sph e df_pat df_endpoint mort_status apache_group)
             = Inr (Some output_df)"
  shows "convolve_hr (unique_label_at_hours sph (length df_pat) (map_option of_bool mort_status) 24)
           (hr_status_of U df_pat) = Inr (mortality output_df)
    \<and> convolve_hr (unique_label_at_hours sph (length df_pat) apache_group 24)
           (hr_status_of U df_pat) = Inr (phenotyping output_df)
    \<and> convolve_hr
           (transition_to_failure U sph (map circ_failure_status (ep_rows df_endpoint)) 0 12)
           (hr_status_of U df_pat) = Inr (circ_failure output_df)
    \<and> convolve_hr
           (transition_to_failure U sph
              (get_any_resp_label U (map resp_failure_status (ep_rows df_endpoint))) 0 12)
           (hr_status_of U df_pat) = Inr (resp_failure output_df)
    \<and> convolve_hr
           (fst (future_urine_output U sph (map vm24 df_pat)
                   (map vm24_IMPUTED_STATUS_CUM_COUNT df_pat) (map vm131 df_pat) 2))
           (hr_status_of U df_pat) = Inr (urine_reg output_df)
    \<and> convolve_hr
           (snd (future_urine_output U sph (map vm24 df_pat)
                   (map vm24_IMPUTED_STATUS_CUM_COUNT df_pat) (map vm131 df_pat) 2))
           (hr_status_of U df_pat) = Inr (urine_binary output_df)
    \<and> (\<forall>t < length df_pat. hr_status_of U df_pat ! t \<longrightarrow>
          mortality output_df ! t
            = (if t < 24 * sph then None else map_option of_bool mort_status)
          \<and> phenotyping output_df ! t = (if t < 24 * sph then None else apache_group))"
proof -
  note ch = gen_label_channels [OF assms]
  have "mortality output_df ! t = (if t < 24 * sph then None else map_option of_bool mort_status)
      \<and> phenotyping output_df ! t = (if t < 24 * sph then None else apache_group)"
    if "t < length df_pat" "hr_status_of U df_pat ! t" for t
    using that convolve_hr_Inr(3) [OF ch(1), of t] convolve_hr_Inr(3) [OF ch(6), of t]
    by (simp add: unique_label_length unique_label_nth)
  with ch(1-6) show ?thesis by simp
qed

theorem gen_label_default_bounds_witness:
  "\<exists>d. fst (gen_label sample_utils 12 quiet_env (sample_stay 7 3)
            \<lparr>ep_rows = sample_endpoint 7 3, ep_datetime_is_index = False\<rparr> (Some True) (Some 1))
          = Inr (Some d)
      \<and> hr_status_of sample_utils (sample_stay 7 3) ! 2
      \<and> mortality d ! 2 = None \<and> phenotyping d ! 2 = None"
proof -
  obtain d where d: "fst (gen_label sample_utils 12 quiet_env (sample_stay 7 3)
            \<lparr>ep_rows = sample_endpoint 7 3, ep_datetime_is_index = False\<rparr> (Some True) (Some 1))
          = Inr (Some d)"
    using sample_gen_label [of 3 12] by force
  have len: "length (sample_stay 7 3) = 3" by (simp add: sample_stay_def)
  have ok: "hr_status_of sample_utils (sample_stay 7 3) ! 2"
    by (rule sample_hr_status) simp
  from gen_label_default_bounds [OF d] len ok show ?thesis
    using d by auto
qed

subsection \<open>Facts about \<^verbatim>\<open>label_gen_benchmark\<close>\<close>

lemma set_unique: "set (unique xs) = set xs"
  by (simp add: unique_def)

lemma patient_loop_raises:
  assumes "pid \<in> set pids" and "\<And>st. \<exists>err. body pid st = Inl err"
  shows "\<exists>err. patient_loop body pids st = Inl err"
  using assms(1)
proof (induction pids arbitrary: st)
  case Nil
  then show ?case by simp
next
  case (Cons p ps)
  show ?case
  proof (cases "body p st")
    case (Inl err)
    then show ?thesis by simp
  next
    case (Inr st')
    with assms(2) [of st] have "p \<noteq> pid" by auto
    with Cons.prems have "pid \<in> set ps" by simp
    from Cons.IH [OF this] Inr show ?thesis by simp
  qed
qed

lemma gen_label_misaligned:
  assumes "df_pat \<noteq> []" and "rows \<noteq> []"
    and "map p_datetime df_pat \<noteq> map e_datetime rows"
  shows "fst (gen_label U sph e df_pat \<lparr>ep_rows = rows, ep_datetime_is_index = False\<rparr> ms ag)
           = Inl ValueError
       \<or> fst (gen_label U sph e df_pat \<lparr>ep_rows = rows, ep_datetime_is_index = False\<rparr> ms ag)
           = Inl AssertionError"
  using assms by (simp add: gen_label_def set_index_def assert_aligned_def)

lemma mset_filter_split:
  "mset (filter (\<lambda>r. f r \<noteq> k) xs) + mset (filter (\<lambda>r. f r = k) xs) = mset xs"
  by (induction xs) auto

lemma mset_sort_values: "mset (sort_values df) = mset df"
  by (simp add: sort_values_def mset_filter_split)

lemma sorted_endpoint_empty: "sorted_endpoint df = [] \<longleftrightarrow> df = []"
proof -
  have "mset (sorted_endpoint df) = mset df"
    by (simp add: sorted_endpoint_def mset_sort_values)
  then show ?thesis by (metis mset_zero_iff)
qed

lemma process_patient_misaligned:
  assumes "path_exists e"
    and "filter (\<lambda>r. p_pid r = pid) df_all_pats \<noteq> []"
    and "filter (\<lambda>r. e_pid r = pid) df_all_endpoints \<noteq> []"
    and "map p_datetime (filter (\<lambda>r. p_pid r = pid) df_all_pats)
           \<noteq> map e_datetime (sorted_endpoint (filter (\<lambda>r. e_pid r = pid) df_all_endpoints))"
  shows "\<exists>err. process_patient U sph cfg e df_static df_all_pats df_all_endpoints pid st
           = Inl err"
proof -
  let ?rows = "sorted_endpoint (filter (\<lambda>r. e_pid r = pid) df_all_endpoints)"
  from assms(3) have ne: "?rows \<noteq> []" by (simp add: sorted_endpoint_empty)
  have gl: "\<exists>err. fst (gen_label U sph e (filter (\<lambda>r. p_pid r = pid) df_all_pats)
      \<lparr>ep_rows = ?rows, ep_datetime_is_index = False\<rparr> ms ag) = Inl err" for ms ag
    using gen_label_misaligned [OF assms(2) ne assms(4)] by blast
  show ?thesis
  proof (cases "try_mort_status (mort_code df_static pid)")
    case (Inl err)
    then show ?thesis by (simp add: process_patient_def)
  next
    case m: (Inr mort_status)
    show ?thesis
    proof (cases "float_of_series
        (map APACHE_II_Group (filter (\<lambda>r. s_pid r = pid) df_static))")
      case (Inl err)
      with m show ?thesis by (simp add: process_patient_def)
    next
      case a2: (Inr a2)
      show ?thesis
      proof (cases "float_of_series
          (map APACHE_IV_Group (filter (\<lambda>r. s_pid r = pid) df_static))")
        case (Inl err)
        with m a2 show ?thesis by (simp add: process_patient_def)
      next
        case a4: (Inr a4)
        from gl obtain err where "fst (gen_label U sph e (filter (\<lambda>r. p_pid r = pid) df_all_pats)
          \<lparr>ep_rows = ?rows, ep_datetime_is_index = False\<rparr> (Some mort_status)
          (merge_apache_groups U a2 a4 (APACHE_II_map cfg) (APACHE_IV_map cfg))) = Inl err"
          by blast
        with m a2 a4 assms(1-3) show ?thesis
          by (simp add: process_patient_def Let_def)
      qed
    qed
  qed
qed

lemma process_patient_appended:
  assumes "process_patient U sph cfg e df_static df_all_pats df_all_endpoints pid st = Inr st'"
    and "all_out_dfs st' = all_out_dfs st @ [d]"
  shows "\<exists>ms a2 a4. try_mort_status (mort_code df_static pid) = Inr ms
    \<and> float_of_series (map APACHE_II_Group (filter (\<lambda>r. s_pid r = pid) df_static)) = Inr a2
    \<and> float_of_series (map APACHE_IV_Group (filter (\<lambda>r. s_pid r = pid) df_static)) = Inr a4
    \<and> fst (gen_label U sph e (filter (\<lambda>r. p_pid r = pid) df_all_pats)
          \<lparr>ep_rows = sorted_endpoint (filter (\<lambda>r. e_pid r = pid) df_all_endpoints),
           ep_datetime_is_index = False\<rparr> (Some ms)
          (merge_apache_groups U a2 a4 (APACHE_II_map cfg) (APACHE_IV_map cfg)))
        = Inr (Some d)"
  using assms
  by (auto simp: process_patient_def Let_def and_then_eq_Inr skip_patient_def
      split: if_splits option.splits)

lemma try_mort_status_Inr:
  assumes "try_mort_status (mort_code df_static pid) = Inr ms"
  shows "\<exists>r rs. filter (\<lambda>r. s_pid r = pid) df_static = r # rs
           \<and> ms = (py_str (discharge_status r) = ''dead'')"
  using assms
  by (auto simp: try_mort_status_def mort_code_def split: list.splits if_splits)

lemma py_str_dead: "py_str v = ''dead'' \<longleftrightarrow> v = DStr ''dead''"
  by (cases v) simp_all

lemmas sample_defs =
  sample_utils_def sample_stay_def sample_endpoint_def sample_static_def sample_configs_def
  quiet_env_def info_env_def late_endpoint_def two_stays_def two_static_def

lemmas driver_defs =
  label_gen_benchmark_def process_patient_def unique_def try_mort_status_def mort_code_def
  float_of_series_def skip_patient_def sorted_endpoint_def sort_values_def is_df_sorted_def
  diff_def dropna_def wrap64_def NaT_def logging_info_flush_def pd_concat_def nrows_def

lemmas gen_label_defs =
  gen_label_def set_index_def assert_aligned_def label_channels_def convolve_hr_def
  unique_label_at_hours_def rem_los_def linspace_def pd_DataFrame_def

lemma upt_2: "[0..<2] = [0, Suc 0]"
  by (simp add: upt_conv_Cons)

subsection \<open>Timestamps that do not match\<close>

text \<open>Claim C2, amended. For a patient with rows in both tables whose imputed timestamps
  differ from the endpoint timestamps after sorting, \<^verbatim>\<open>gen_label\<close> raises: ValueError
  (duplicate endpoint timestamps, or series of different lengths) or AssertionError. Nothing
  in \<^verbatim>\<open>label_gen_benchmark\<close> catches it: the run of the batch ends with an exception, with
  no table written and no count of skipped patients returned.\<close>

theorem misaligned_patient_aborts_batch:
  assumes "path_exists e"
    and "pid \<in> set (map p_pid df_all_pats)"
    and "filter (\<lambda>r. e_pid r = pid) df_all_endpoints \<noteq> []"
    and "map p_datetime (filter (\<lambda>r. p_pid r = pid) df_all_pats)
           \<noteq> map e_datetime (sorted_endpoint (filter (\<lambda>r. e_pid r = pid) df_all_endpoints))"
  shows "(fst (gen_label U sph e (filter (\<lambda>r. p_pid r = pid) df_all_pats)
            \<lparr>ep_rows = sorted_endpoint (filter (\<lambda>r. e_pid r = pid) df_all_endpoints),
             ep_datetime_is_index = False\<rparr> mort_status apache_group) = Inl ValueError
          \<or> fst (gen_label U sph e (filter (\<lambda>r. p_pid r = pid) df_all_pats)
            \<lparr>ep_rows = sorted_endpoint (filter (\<lambda>r. e_pid r = pid) df_all_endpoints),
             ep_datetime_is_index = False\<rparr> mort_status apache_group) = Inl AssertionError)
       \<and> (\<exists>err. label_gen_benchmark U sph cfg e df_static df_all_pats df_all_endpoints
              = Inl err)"
proof -
  let ?rows = "sorted_endpoint (filter (\<lambda>r. e_pid r = pid) df_all_endpoints)"
  from assms(2) have pat: "filter (\<lambda>r. p_pid r = pid) df_all_pats \<noteq> []"
    by (auto simp: filter_empty_conv)
  from assms(3) have ne: "?rows \<noteq> []" by (simp add: sorted_endpoint_empty)
  from assms(2) have "pid \<in> set (unique (map p_pid df_all_pats))"
    by (simp only: set_unique)
  then obtain err where "patient_loop
      (process_patient U sph cfg e df_static df_all_pats df_all_endpoints)
      (unique (map p_pid df_all_pats)) \<lparr>n_skipped_patients = 0, all_out_dfs = []\<rparr> = Inl err"
    using patient_loop_raises process_patient_misaligned [OF assms(1) pat assms(3,4)]
    by meson
  then have "label_gen_benchmark U sph cfg e df_static df_all_pats df_all_endpoints = Inl err"
    by (simp add: label_gen_benchmark_def)
  with gen_label_misaligned [OF pat ne assms(4)] show ?thesis by blast
qed

theorem misaligned_patient_aborts_batch_witness:
  "path_exists quiet_env
   \<and> 1 \<in> set (map p_pid two_stays)
   \<and> filter (\<lambda>r. e_pid r = 1) (late_endpoint 1 2 @ sample_endpoint 2 2) \<noteq> []
   \<and> map p_datetime (filter (\<lambda>r. p_pid r = 1) two_stays)
       \<noteq> map e_datetime (sorted_endpoint
            (filter (\<lambda>r. e_pid r = 1) (late_endpoint 1 2 @ sample_endpoint 2 2)))
   \<and> (\<exists>err. label_gen_benchmark sample_utils 12 sample_configs quiet_env two_static two_stays
              (late_endpoint 1 2 @ sample_endpoint 2 2) = Inl err)"
proof -
  have a: "path_exists quiet_env" by (simp add: quiet_env_def)
  have b: "1 \<in> set (map p_pid two_stays)"
    by (simp add: two_stays_def sample_stay_def upt_2)
  have c: "filter (\<lambda>r. e_pid r = 1) (late_endpoint 1 2 @ sample_endpoint 2 2) \<noteq> []"
    by (simp add: late_endpoint_def sample_endpoint_def upt_2)
  have d: "map p_datetime (filter (\<lambda>r. p_pid r = 1) two_stays)
       \<noteq> map e_datetime (sorted_endpoint
            (filter (\<lambda>r. e_pid r = 1) (late_endpoint 1 2 @ sample_endpoint 2 2)))"
    by (simp add: sample_defs sorted_endpoint_def sort_values_def is_df_sorted_def diff_def
        dropna_def wrap64_def NaT_def upt_2)
  from misaligned_patient_aborts_batch [OF a b c d, of sample_utils 12 None None
      sample_configs two_static]
  have "\<exists>err. label_gen_benchmark sample_utils 12 sample_configs quiet_env two_static two_stays
              (late_endpoint 1 2 @ sample_endpoint 2 2) = Inl err" by (elim conjE)
  with a b c d show ?thesis by (intro conjI)
qed

text \<open>A batch of two patients, the first with endpoint timestamps off the grid, the second
  well-formed: the run ends with the AssertionError of the first patient.\<close>

theorem misaligned_patient_counterexample:
  "label_gen_benchmark sample_utils 12 sample_configs quiet_env two_static two_stays
     (late_endpoint 1 2 @ sample_endpoint 2 2) = Inl AssertionError"
  by (simp add: sample_defs driver_defs gen_label_defs upt_2 Let_def)

subsection \<open>Empty slices\<close>

text \<open>For a patient with an empty slice whose static attributes load, the body of the loop
  counts a skip when the root logger is not enabled for INFO, and raises otherwise.\<close>

lemma empty_slice_outcome:
  assumes "try_mort_status (mort_code df_static pid) = Inr ms"
    and "float_of_series (map APACHE_II_Group (filter (\<lambda>r. s_pid r = pid) df_static)) = Inr a2"
    and "float_of_series (map APACHE_IV_Group (filter (\<lambda>r. s_pid r = pid) df_static)) = Inr a4"
    and "path_exists e"
    and "filter (\<lambda>r. p_pid r = pid) df_all_pats = []
         \<or> filter (\<lambda>r. e_pid r = pid) df_all_endpoints = []"
  shows "process_patient U sph cfg e df_static df_all_pats df_all_endpoints pid st
           = (if info_enabled e then Inl TypeError else Inr (skip_patient st))"
  using assms by (auto simp: process_patient_def Let_def logging_info_flush_def)

lemma empty_slice_skipped_when_quiet:
  "skipped (projr (label_gen_benchmark sample_utils 12 sample_configs quiet_env two_static
      two_stays (sample_endpoint 2 2))) = 1
   \<and> map_option patient_id (written (projr (label_gen_benchmark sample_utils 12 sample_configs
      quiet_env two_static two_stays (sample_endpoint 2 2)))) = Some [2, 2]
   \<and> isl (label_gen_benchmark sample_utils 12 sample_configs quiet_env two_static
      two_stays (sample_endpoint 2 2)) = False"
  by (simp add: sample_defs driver_defs gen_label_defs upt_2 Let_def)

text \<open>Claim C3 at a failing input. With the root logger enabled for INFO, \<^verbatim>\<open>gen_label\<close> on
  an empty endpoint slice raises TypeError (from \<^verbatim>\<open>logging.info(..., flush=True)\<close>) where
  the claim has it return \<^verbatim>\<open>None\<close>, and a batch in which the first patient has no endpoint
  rows ends with that TypeError where the claim has the patient skipped and counted.\<close>

theorem empty_slice_logging_raises:
  "fst (gen_label sample_utils 12 info_env (sample_stay 1 2)
          \<lparr>ep_rows = [], ep_datetime_is_index = False\<rparr> (Some False) (Some 1)) = Inl TypeError
   \<and> label_gen_benchmark sample_utils 12 sample_configs info_env two_static two_stays
        (sample_endpoint 2 2) = Inl TypeError"
  by (simp add: sample_defs driver_defs gen_label_defs upt_2 Let_def)

subsection \<open>Static attributes\<close>

text \<open>Claim C10. The mortality status is true exactly when the discharge status of the
  patient's first static record, converted to a string, is "dead", which is when the
  status is the string "dead"; a ValueError or TypeError of the lookup gives false; and the
  mortality channel of every table the loop appends is the masked output of the static
  labeler for that status.\<close>

theorem mort_status_dead_iff:
  "(\<forall>r rs. filter (\<lambda>r. s_pid r = pid) df_static = r # rs \<longrightarrow>
      try_mort_status (mort_code df_static pid) = Inr (py_str (discharge_status r) = ''dead'')
      \<and> ((py_str (discharge_status r) = ''dead'') = (discharge_status r = DStr ''dead'')))
   \<and> try_mort_status (Inl ValueError) = Inr False
   \<and> try_mort_status (Inl TypeError) = Inr False
   \<and> (\<forall>st st' d.
        process_patient U sph cfg e df_static df_all_pats df_all_endpoints pid st = Inr st'
        \<and> all_out_dfs st' = all_out_dfs st @ [d] \<longrightarrow>
        (\<exists>r rs. filter (\<lambda>r. s_pid r = pid) df_static = r # rs
           \<and> convolve_hr
               (unique_label_at_hours sph (length (filter (\<lambda>r. p_pid r = pid) df_all_pats))
                  (Some (of_bool (py_str (discharge_status r) = ''dead''))) 24)
               (hr_status_of U (filter (\<lambda>r. p_pid r = pid) df_all_pats))
             = Inr (mortality d)))"
proof -
  have a: "try_mort_status (mort_code df_static pid)
        = Inr (py_str (discharge_status r) = ''dead'')
      \<and> ((py_str (discharge_status r) = ''dead'') = (discharge_status r = DStr ''dead''))"
    if "filter (\<lambda>r. s_pid r = pid) df_static = r # rs" for r rs
    using that by (simp add: try_mort_status_def mort_code_def py_str_dead)
  have b: "try_mort_status (Inl ValueError) = Inr False"
    "try_mort_status (Inl TypeError) = Inr False"
    by (simp_all add: try_mort_status_def)
  have c: "\<exists>r rs. filter (\<lambda>r. s_pid r = pid) df_static = r # rs
       \<and> convolve_hr
           (unique_label_at_hours sph (length (filter (\<lambda>r. p_pid r = pid) df_all_pats))
              (Some (of_bool (py_str (discharge_status r) = ''dead''))) 24)
           (hr_status_of U (filter (\<lambda>r. p_pid r = pid) df_all_pats))
         = Inr (mortality d)"
    if "process_patient U sph cfg e df_static df_all_pats df_all_endpoints pid st = Inr st'"
      and "all_out_dfs st' = all_out_dfs st @ [d]" for st st' d
  proof -
    from process_patient_appended [OF that] obtain ms a2 a4 where
      ms: "try_mort_status (mort_code df_static pid) = Inr ms"
      and gl: "fst (gen_label U sph e (filter (\<lambda>r. p_pid r = pid) df_all_pats)
          \<lparr>ep_rows = sorted_endpoint (filter (\<lambda>r. e_pid r = pid) df_all_endpoints),
           ep_datetime_is_index = False\<rparr> (Some ms)
          (merge_apache_groups U a2 a4 (APACHE_II_map cfg) (APACHE_IV_map cfg)))
        = Inr (Some d)"
      by blast
    from try_mort_status_Inr [OF ms] obtain r rs where
      r: "filter (\<lambda>r. s_pid r = pid) df_static = r # rs"
      "ms = (py_str (discharge_status r) = ''dead'')" by blast
    from gen_label_channels(1) [OF gl] r show ?thesis by simp
  qed
  from a b c show ?thesis by blast
qed

theorem mort_status_dead_iff_witness:
  "try_mort_status (mort_code [(sample_static 1)\<lparr>discharge_status := DStr ''dead''\<rparr>] 1)
     = Inr True
   \<and> try_mort_status (mort_code [sample_static 1] 1) = Inr False
   \<and> try_mort_status (mort_code [(sample_static 1)\<lparr>discharge_status := DNaN\<rparr>] 1)
     = Inr False"
proof -
  have a: "filter (\<lambda>r. s_pid r = 1) [(sample_static 1)\<lparr>discharge_status := DStr ''dead''\<rparr>]
      = (sample_static 1)\<lparr>discharge_status := DStr ''dead''\<rparr> # []"
    and b: "filter (\<lambda>r. s_pid r = 1) [sample_static 1] = sample_static 1 # []"
    and c: "filter (\<lambda>r. s_pid r = 1) [(sample_static 1)\<lparr>discharge_status := DNaN\<rparr>]
      = (sample_static 1)\<lparr>discharge_status := DNaN\<rparr> # []"
    by (simp_all add: sample_static_def)
  from mort_status_dead_iff [of 1 "[(sample_static 1)\<lparr>discharge_status := DStr ''dead''\<rparr>]"] a
  have "try_mort_status (mort_code [(sample_static 1)\<lparr>discharge_status := DStr ''dead''\<rparr>] 1)
     = Inr (py_str (discharge_status ((sample_static 1)\<lparr>discharge_status := DStr ''dead''\<rparr>))
             = ''dead'')" by blast
  moreover from mort_status_dead_iff [of 1 "[sample_static 1]"] b
  have "try_mort_status (mort_code [sample_static 1] 1)
     = Inr (py_str (discharge_status (sample_static 1)) = ''dead'')" by blast
  moreover from mort_status_dead_iff [of 1 "[(sample_static 1)\<lparr>discharge_status := DNaN\<rparr>]"] c
  have "try_mort_status (mort_code [(sample_static 1)\<lparr>discharge_status := DNaN\<rparr>] 1)
     = Inr (py_str (discharge_status ((sample_static 1)\<lparr>discharge_status := DNaN\<rparr>))
             = ''dead'')" by blast
  ultimately show ?thesis by (simp add: sample_static_def)
qed

subsection \<open>Sorting of the endpoint series\<close>


lemma dropna_simps [simp]:
  "dropna [] = []"
  "dropna (None # xs) = dropna xs"
  "dropna (Some x # xs) = x # dropna xs"
  by (simp_all add: dropna_def)















subsection \<open>Remaining length of stay\<close>

text \<open>Claim C6, amended. With a positive number of steps per hour: for a stay of
  \<open>L \<ge> 2\<close> timesteps the remaining-length-of-stay channel before masking has \<open>L\<close>
  values, starts at \<open>L / steps_per_hour\<close>, ends at 0, is linear in the timestep and
  strictly decreasing; for a stay of one timestep it is the single value
  \<open>1 / steps_per_hour\<close>.\<close>

theorem rem_los_linear:
  assumes "0 < sph"
  shows "(L = 1 \<longrightarrow> rem_los sph L = Inr [Some (1 / real sph)])
    \<and> (2 \<le> L \<longrightarrow>
         (\<exists>ys. rem_los sph L = Inr (map Some ys) \<and> length ys = L
           \<and> ys ! 0 = real L / real sph \<and> ys ! (L - 1) = 0
           \<and> (\<forall>i<L. ys ! i = real L / real sph * (1 - real i / real (L - 1)))
           \<and> (\<forall>i j. i < j \<and> j < L \<longrightarrow> ys ! j < ys ! i)))"
proof (intro conjI impI)
  assume "L = 1"
  with assms show "rem_los sph L = Inr [Some (1 / real sph)]"
    by (simp add: rem_los_def linspace_def)
next
  assume L: "2 \<le> L"
  let ?s = "real L / real sph"
  let ?ys = "linspace ?s 0 L"
  have pos: "0 < ?s" using assms L by simp
  have n1: "0 < real (L - 1)" using L by simp
  have nth: "\<And>i. i < L \<Longrightarrow> ?ys ! i = ?s * (1 - real i / real (L - 1))"
    using L by (rule linspace_nth)
  have dec: "?ys ! j < ?ys ! i" if "i < j" "j < L" for i j
  proof -
    have "real i / real (L - 1) < real j / real (L - 1)"
      using that n1 by (simp add: divide_strict_right_mono)
    then have lt: "1 - real j / real (L - 1) < 1 - real i / real (L - 1)"
      by simp
    have "?s * (1 - real j / real (L - 1)) < ?s * (1 - real i / real (L - 1))"
      by (rule mult_strict_left_mono [OF lt pos])
    moreover have "?ys ! j = ?s * (1 - real j / real (L - 1))"
      using that by (intro nth)
    moreover have "?ys ! i = ?s * (1 - real i / real (L - 1))"
      using that by (intro nth) simp
    ultimately show ?thesis by (simp only:)
  qed
  have "rem_los sph L = Inr (map Some ?ys)" using assms by (simp add: rem_los_def)
  moreover have "length ?ys = L" by (rule linspace_length)
  moreover have "?ys ! 0 = ?s" using nth [of 0] L by simp
  moreover have "?ys ! (L - 1) = 0" using nth [of "L - 1"] L n1 by simp
  ultimately show "\<exists>ys. rem_los sph L = Inr (map Some ys) \<and> length ys = L
           \<and> ys ! 0 = real L / real sph \<and> ys ! (L - 1) = 0
           \<and> (\<forall>i<L. ys ! i = real L / real sph * (1 - real i / real (L - 1)))
           \<and> (\<forall>i j. i < j \<and> j < L \<longrightarrow> ys ! j < ys ! i)"
    using nth dec by blast
qed

theorem rem_los_linear_witness:
  "(0::nat) < 12 \<and> rem_los 12 1 = Inr [Some (1 / 12)]
   \<and> (\<exists>ys. rem_los 12 48 = Inr (map Some ys) \<and> length ys = 48 \<and> ys ! 0 = 4 \<and> ys ! 47 = 0
        \<and> ys ! 1 < ys ! 0)"
proof -
  have pos: "(0::nat) < 12" by simp
  from rem_los_linear [OF pos, of 1] have one: "rem_los 12 1 = Inr [Some (1 / 12)]"
    by simp
  from rem_los_linear [OF pos, of 48] obtain ys where
    ys: "rem_los 12 48 = Inr (map Some ys)" "length ys = 48"
      "ys ! 0 = real 48 / real 12" "ys ! (48 - 1) = 0"
      "\<forall>i j. i < j \<and> j < 48 \<longrightarrow> ys ! j < ys ! i"
    by auto
  from ys(5) have "ys ! 1 < ys ! 0" by simp
  with ys one show ?thesis by auto
qed

text \<open>A stay of a single timestep: the only value, which is the first and the last, is
  \<open>1 / steps_per_hour\<close>, not 0.\<close>

theorem rem_los_single_step_counterexample:
  "rem_los 12 1 = Inr [Some (1 / 12)] \<and> last [Some (1 / 12 :: real)] \<noteq> Some 0"
  by (simp add: rem_los_def linspace_def)

subsection \<open>The effect of \<^verbatim>\<open>gen_label\<close> on its arguments\<close>

text \<open>Claim C9, amended. Whatever \<^verbatim>\<open>gen_label\<close> returns or raises, it leaves the imputed
  frame as it was and the endpoint frame with the rows it had, in their order. It changes
  the endpoint frame object exactly when both series are non-empty, the timestamp of the
  endpoint frame is still a column and the endpoint timestamps are distinct: then the
  timestamp column becomes the index of the frame, and nothing else changes. This is so
  whenever a table is returned. In every other case (an empty series, whether the call
  returns \<^verbatim>\<open>None\<close> or raises at the logging call; a frame whose timestamp is already the
  index; a repeated timestamp) the endpoint frame is left as it was.\<close>

theorem gen_label_endpoint_frame:
  "fst (snd (gen_label U sph e df_pat df_endpoint mort_status apache_group)) = df_pat
   \<and> ep_rows (snd (snd (gen_label U sph e df_pat df_endpoint mort_status apache_group)))
       = ep_rows df_endpoint
   \<and> (snd (snd (gen_label U sph e df_pat df_endpoint mort_status apache_group)) \<noteq> df_endpoint
        \<longleftrightarrow> df_pat \<noteq> [] \<and> ep_rows df_endpoint \<noteq> [] \<and> \<not> ep_datetime_is_index df_endpoint
            \<and> distinct (map e_datetime (ep_rows df_endpoint)))
   \<and> (snd (snd (gen_label U sph e df_pat df_endpoint mort_status apache_group)) \<noteq> df_endpoint
        \<longrightarrow> snd (snd (gen_label U sph e df_pat df_endpoint mort_status apache_group))
            = df_endpoint\<lparr>ep_datetime_is_index := True\<rparr>)
   \<and> (\<forall>d. fst (gen_label U sph e df_pat df_endpoint mort_status apache_group) = Inr (Some d)
        \<longrightarrow> snd (snd (gen_label U sph e df_pat df_endpoint mort_status apache_group))
            = df_endpoint\<lparr>ep_datetime_is_index := True\<rparr>
          \<and> \<not> ep_datetime_is_index df_endpoint)"
proof -
  let ?changed = "df_pat \<noteq> [] \<and> ep_rows df_endpoint \<noteq> [] \<and> \<not> ep_datetime_is_index df_endpoint
            \<and> distinct (map e_datetime (ep_rows df_endpoint))"
  let ?G = "gen_label U sph e df_pat df_endpoint mort_status apache_group"
  let ?post = "snd (snd ?G)"
  have pat: "fst (snd ?G) = df_pat" by (simp add: gen_label_snd)
  have some: "?changed" if "fst ?G = Inr (Some d)" for d
    using gen_label_Some(1-4) [OF that] by simp
  show ?thesis
  proof (cases ?changed)
    case True
    then have post: "?post = df_endpoint\<lparr>ep_datetime_is_index := True\<rparr>"
      by (simp add: gen_label_snd)
    have "ep_datetime_is_index ?post \<noteq> ep_datetime_is_index df_endpoint"
      using True by (simp add: post)
    then have "?post \<noteq> df_endpoint" by auto
    with True post pat show ?thesis by simp
  next
    case False
    then have post: "?post = df_endpoint"
      by (simp only: gen_label_snd snd_conv if_False)
    from False some have "\<And>d. fst ?G \<noteq> Inr (Some d)" by blast
    with False post pat show ?thesis by simp
  qed
qed

text \<open>The theorem on three calls: one that returns a table (the timestamp column of the
  endpoint frame has become its index), one with an empty endpoint series and the logger
  enabled, which raises at the logging call, and one on a frame whose timestamp is already
  the index, which raises KeyError; the last two leave both frames as they were.\<close>

theorem gen_label_endpoint_frame_witness:
  "(\<exists>d. fst (gen_label sample_utils 12 quiet_env (sample_stay 7 3)
            \<lparr>ep_rows = sample_endpoint 7 3, ep_datetime_is_index = False\<rparr> (Some True) (Some 1))
          = Inr (Some d)
      \<and> snd (gen_label sample_utils 12 quiet_env (sample_stay 7 3)
            \<lparr>ep_rows = sample_endpoint 7 3, ep_datetime_is_index = False\<rparr> (Some True) (Some 1))
          = (sample_stay 7 3, \<lparr>ep_rows = sample_endpoint 7 3, ep_datetime_is_index = True\<rparr>))
   \<and> gen_label sample_utils 12 info_env (sample_stay 7 3)
            \<lparr>ep_rows = [], ep_datetime_is_index = False\<rparr> (Some True) (Some 1)
          = (Inl TypeError, sample_stay 7 3, \<lparr>ep_rows = [], ep_datetime_is_index = False\<rparr>)
   \<and> gen_label sample_utils 12 quiet_env (sample_stay 7 3)
            \<lparr>ep_rows = sample_endpoint 7 3, ep_datetime_is_index = True\<rparr> (Some True) (Some 1)
          = (Inl KeyError, sample_stay 7 3,
             \<lparr>ep_rows = sample_endpoint 7 3, ep_datetime_is_index = True\<rparr>)"
proof -
  let ?ep = "\<lparr>ep_rows = sample_endpoint 7 3, ep_datetime_is_index = False\<rparr>"
  let ?G = "gen_label sample_utils 12 quiet_env (sample_stay 7 3) ?ep (Some True) (Some 1)"
  obtain d where d: "fst ?G = Inr (Some d)"
    using sample_gen_label [of 3 12] by force
  note fr = gen_label_endpoint_frame [where U = sample_utils and sph = 12 and e = quiet_env
      and df_pat = "sample_stay 7 3" and df_endpoint = ?ep
      and mort_status = "Some True" and apache_group = "Some 1"]
  from fr have pat: "fst (snd ?G) = sample_stay 7 3" by (elim conjE)
  from fr have "\<forall>d. fst ?G = Inr (Some d)
      \<longrightarrow> snd (snd ?G) = ?ep\<lparr>ep_datetime_is_index := True\<rparr> \<and> \<not> ep_datetime_is_index ?ep"
    by (elim conjE)
  with d have "snd (snd ?G) = ?ep\<lparr>ep_datetime_is_index := True\<rparr>" by blast
  then have "snd (snd ?G) = \<lparr>ep_rows = sample_endpoint 7 3, ep_datetime_is_index = True\<rparr>"
    by simp
  with pat have "snd ?G
      = (sample_stay 7 3, \<lparr>ep_rows = sample_endpoint 7 3, ep_datetime_is_index = True\<rparr>)"
    by (metis prod.collapse)
  with d have one: "\<exists>d. fst ?G = Inr (Some d) \<and> snd ?G
      = (sample_stay 7 3, \<lparr>ep_rows = sample_endpoint 7 3, ep_datetime_is_index = True\<rparr>)"
    by blast
  have ne: "sample_stay 7 3 \<noteq> []" by (simp add: sample_stay_def)
  let ?ep0 = "\<lparr>ep_rows = [] :: real option endpoint_row list, ep_datetime_is_index = False\<rparr>"
  let ?G0 = "gen_label sample_utils 12 info_env (sample_stay 7 3) ?ep0 (Some True) (Some 1)"
  note fr0 = gen_label_endpoint_frame [where U = sample_utils and sph = 12 and e = info_env
      and df_pat = "sample_stay 7 3" and df_endpoint = ?ep0
      and mort_status = "Some True" and apache_group = "Some 1"]
  from fr0 have pat0: "fst (snd ?G0) = sample_stay 7 3" by (elim conjE)
  from fr0 have "snd (snd ?G0) \<noteq> ?ep0
        \<longleftrightarrow> sample_stay 7 3 \<noteq> [] \<and> ep_rows ?ep0 \<noteq> [] \<and> \<not> ep_datetime_is_index ?ep0
            \<and> distinct (map e_datetime (ep_rows ?ep0))"
    by (elim conjE)
  then have post0: "snd (snd ?G0) = ?ep0" by simp
  have "fst ?G0 = Inl TypeError"
    by (simp add: gen_label_def logging_info_flush_def info_env_def)
  with pat0 post0 have two: "?G0 = (Inl TypeError, sample_stay 7 3, ?ep0)"
    by (metis prod.collapse)
  let ?ep1 = "\<lparr>ep_rows = sample_endpoint 7 3, ep_datetime_is_index = True\<rparr>"
  let ?G1 = "gen_label sample_utils 12 quiet_env (sample_stay 7 3) ?ep1 (Some True) (Some 1)"
  note fr1 = gen_label_endpoint_frame [where U = sample_utils and sph = 12 and e = quiet_env
      and df_pat = "sample_stay 7 3" and df_endpoint = ?ep1
      and mort_status = "Some True" and apache_group = "Some 1"]
  from fr1 have pat1: "fst (snd ?G1) = sample_stay 7 3" by (elim conjE)
  from fr1 have "snd (snd ?G1) \<noteq> ?ep1
        \<longleftrightarrow> sample_stay 7 3 \<noteq> [] \<and> ep_rows ?ep1 \<noteq> [] \<and> \<not> ep_datetime_is_index ?ep1
            \<and> distinct (map e_datetime (ep_rows ?ep1))"
    by (elim conjE)
  then have post1: "snd (snd ?G1) = ?ep1" by simp
  have "fst ?G1 = Inl KeyError"
    using ne by (simp add: gen_label_def set_index_def sample_endpoint_def)
  with pat1 post1 have three: "?G1 = (Inl KeyError, sample_stay 7 3, ?ep1)"
    by (metis prod.collapse)
  from one two three show ?thesis by (intro conjI)
qed

text \<open>A call that returns a table leaves the endpoint frame changed.\<close>

theorem gen_label_mutates_endpoint_counterexample:
  "snd (snd (gen_label sample_utils 12 quiet_env (sample_stay 7 3)
          \<lparr>ep_rows = sample_endpoint 7 3, ep_datetime_is_index = False\<rparr> (Some True) (Some 1)))
     \<noteq> \<lparr>ep_rows = sample_endpoint 7 3, ep_datetime_is_index = False\<rparr>"
  by (simp add: gen_label_snd sample_stay_def sample_endpoint_def comp_def distinct_map
      inj_on_def)

subsection \<open>Severity scores\<close>

text \<open>The two conversions of lines 151 and 152 stand outside the \<^verbatim>\<open>try\<close> statement: a
  severity cell that \<^verbatim>\<open>float\<close> cannot convert ends the pass for the patient with TypeError,
  whatever the tables hold otherwise.\<close>

lemma null_score_raises:
  assumes "try_mort_status (mort_code df_static pid) = Inr ms"
    and "map APACHE_II_Group (filter (\<lambda>r. s_pid r = pid) df_static) = [SNone]
         \<or> (float_of_series (map APACHE_II_Group (filter (\<lambda>r. s_pid r = pid) df_static)) = Inr a2
            \<and> map APACHE_IV_Group (filter (\<lambda>r. s_pid r = pid) df_static) = [SNone])"
  shows "process_patient U sph cfg e df_static df_all_pats df_all_endpoints pid st = Inl TypeError"
  using assms by (auto simp: process_patient_def float_of_series_def)

text \<open>Claim C7 at a failing input. A batch of one patient whose APACHE II column holds no
  value (the cell is \<^verbatim>\<open>None\<close>), with a discharge status, an imputed series and an endpoint
  series as for a patient who is labelled: the run of the batch ends with TypeError, where
  the claim has the severity score replaced by an unknown default and the patient
  processed.\<close>

theorem severity_score_coercion_raises:
  "label_gen_benchmark sample_utils 12 sample_configs quiet_env null_score_static
     (sample_stay 1 2) (sample_endpoint 1 2) = Inl TypeError"
  by (simp add: sample_defs null_score_static_def driver_defs gen_label_defs upt_2 Let_def)

subsection \<open>Unknown entries\<close>

lemma is_binary_nth: "is_binary arr \<Longrightarrow> t < length arr \<Longrightarrow> arr ! t \<noteq> None"
  by (auto simp: is_binary_def list_all_length)

lemma sample_transition_binary:
  "is_binary (transition_to_failure sample_utils sph arr lhours rhours)"
  by (simp add: sample_utils_def is_binary_def list_all_iff)

text \<open>Claim C1, amended. Whenever \<^verbatim>\<open>gen_label\<close> returns a table, each of the seven channels
  is the channel before masking, passed through the masking operator with the validity mask
  of the heart-rate count: at a timestep \<open>t\<close> where the mask holds the entry is the entry
  before masking, elsewhere it is unknown. So an entry is unknown exactly when the mask is
  false at \<open>t\<close> or the entry was unknown before masking. For mortality and phenotyping
  that is: \<open>t\<close> precedes the horizon of 24 hours, or the mask is false, or the scalar
  itself is unknown. For the two failure channels, if the transition detector returns a
  binary array: the mask is false. For the remaining length of stay: the mask is false. For
  the two urine channels: the mask is false or the regressor gives no value at \<open>t\<close>.\<close>

theorem gen_label_unknown_entries:
  assumes "fst (gen_label U sph e df_pat df_endpoint mort_status apache_group)
             = Inr (Some output_df)"
    and "t < length df_pat"
  shows "convolve_hr
           (unique_label_at_hours sph (length df_pat) (map_option of_bool mort_status) 24)
           (hr_status_of U df_pat) = Inr (mortality output_df)
    \<and> convolve_hr (circ_of U sph df_endpoint) (hr_status_of U df_pat)
        = Inr (circ_failure output_df)
    \<and> convolve_hr (resp_of U sph df_endpoint) (hr_status_of U df_pat)
        = Inr (resp_failure output_df)
    \<and> convolve_hr (fst (urine_of U sph df_pat)) (hr_status_of U df_pat)
        = Inr (urine_reg output_df)
    \<and> convolve_hr (snd (urine_of U sph df_pat)) (hr_status_of U df_pat)
        = Inr (urine_binary output_df)
    \<and> convolve_hr (unique_label_at_hours sph (length df_pat) apache_group 24)
           (hr_status_of U df_pat) = Inr (phenotyping output_df)
    \<and> convolve_hr (los_of sph df_pat) (hr_status_of U df_pat) = Inr (los output_df)
    \<and> mortality output_df ! t
        = (if hr_status_of U df_pat ! t
           then if t < 24 * sph then None else map_option of_bool mort_status else None)
    \<and> phenotyping output_df ! t
        = (if hr_status_of U df_pat ! t
           then if t < 24 * sph then None else apache_group else None)
    \<and> circ_failure output_df ! t
        = (if hr_status_of U df_pat ! t then circ_of U sph df_endpoint ! t else None)
    \<and> resp_failure output_df ! t
        = (if hr_status_of U df_pat ! t then resp_of U sph df_endpoint ! t else None)
    \<and> urine_reg output_df ! t
        = (if hr_status_of U df_pat ! t then fst (urine_of U sph df_pat) ! t else None)
    \<and> urine_binary output_df ! t
        = (if hr_status_of U df_pat ! t then snd (urine_of U sph df_pat) ! t else None)
    \<and> los output_df ! t
        = (if hr_status_of U df_pat ! t
           then Some (linspace (real (length df_pat) / real sph) 0 (length df_pat) ! t)
           else None)
    \<and> (mortality output_df ! t = None
            \<longleftrightarrow> t < 24 * sph \<or> \<not> hr_status_of U df_pat ! t \<or> mort_status = None)
    \<and> (phenotyping output_df ! t = None
            \<longleftrightarrow> t < 24 * sph \<or> \<not> hr_status_of U df_pat ! t \<or> apache_group = None)
    \<and> (circ_failure output_df ! t = None
            \<longleftrightarrow> \<not> hr_status_of U df_pat ! t \<or> circ_of U sph df_endpoint ! t = None)
    \<and> (resp_failure output_df ! t = None
            \<longleftrightarrow> \<not> hr_status_of U df_pat ! t \<or> resp_of U sph df_endpoint ! t = None)
    \<and> (is_binary (circ_of U sph df_endpoint)
          \<longrightarrow> (circ_failure output_df ! t = None \<longleftrightarrow> \<not> hr_status_of U df_pat ! t))
    \<and> (is_binary (resp_of U sph df_endpoint)
          \<longrightarrow> (resp_failure output_df ! t = None \<longleftrightarrow> \<not> hr_status_of U df_pat ! t))
    \<and> (urine_reg output_df ! t = None
            \<longleftrightarrow> \<not> hr_status_of U df_pat ! t \<or> fst (urine_of U sph df_pat) ! t = None)
    \<and> (urine_binary output_df ! t = None
            \<longleftrightarrow> \<not> hr_status_of U df_pat ! t \<or> snd (urine_of U sph df_pat) ! t = None)
    \<and> (los output_df ! t = None \<longleftrightarrow> \<not> hr_status_of U df_pat ! t)"
proof -
  note ch = gen_label_channels [OF assms(1)]
  let ?m = "hr_status_of U df_pat"
  have lm: "length ?m = length df_pat"
    using convolve_hr_Inr(1) [OF ch(1)] by (simp add: unique_label_length)
  have len: "length a = length df_pat" if "convolve_hr a ?m = Inr b" for a b
    using convolve_hr_Inr(1) [OF that] lm by simp
  have masked: "b ! t = (if ?m ! t then a ! t else None)" if "convolve_hr a ?m = Inr b" for a b
    using convolve_hr_Inr(3) [OF that, of t] len [OF that] assms(2) by simp
  from ch(7) obtain rl where rl: "rem_los sph (length df_pat) = Inr rl"
    "convolve_hr rl ?m = Inr (los output_df)" by blast
  from rl(1) have rl_eq: "rl = los_of sph df_pat"
    by (auto simp: rem_los_def split: if_splits)
  have los_eq: "convolve_hr (los_of sph df_pat) ?m = Inr (los output_df)"
    using rl(2) rl_eq by simp
  have los_t: "los_of sph df_pat ! t
      = Some (linspace (real (length df_pat) / real sph) 0 (length df_pat) ! t)"
    using assms(2) by (simp add: linspace_length)
  have v_mort: "mortality output_df ! t
        = (if ?m ! t then if t < 24 * sph then None else map_option of_bool mort_status else None)"
    using masked [OF ch(1)] assms(2) by (simp add: unique_label_nth)
  have v_phen: "phenotyping output_df ! t
        = (if ?m ! t then if t < 24 * sph then None else apache_group else None)"
    using masked [OF ch(6)] assms(2) by (simp add: unique_label_nth)
  have v_circ: "circ_failure output_df ! t
        = (if ?m ! t then circ_of U sph df_endpoint ! t else None)"
    by (rule masked [OF ch(2)])
  have v_resp: "resp_failure output_df ! t
        = (if ?m ! t then resp_of U sph df_endpoint ! t else None)"
    by (rule masked [OF ch(3)])
  have v_ureg: "urine_reg output_df ! t
        = (if ?m ! t then fst (urine_of U sph df_pat) ! t else None)"
    by (rule masked [OF ch(4)])
  have v_ubin: "urine_binary output_df ! t
        = (if ?m ! t then snd (urine_of U sph df_pat) ! t else None)"
    by (rule masked [OF ch(5)])
  have v_los: "los output_df ! t
        = (if ?m ! t
           then Some (linspace (real (length df_pat) / real sph) 0 (length df_pat) ! t)
           else None)"
    using masked [OF los_eq] los_t by simp
  have u_mort: "mortality output_df ! t = None
      \<longleftrightarrow> t < 24 * sph \<or> \<not> ?m ! t \<or> mort_status = None"
    by (auto simp: v_mort)
  have u_phen: "phenotyping output_df ! t = None
      \<longleftrightarrow> t < 24 * sph \<or> \<not> ?m ! t \<or> apache_group = None"
    by (auto simp: v_phen)
  have u_circ: "circ_failure output_df ! t = None
      \<longleftrightarrow> \<not> ?m ! t \<or> circ_of U sph df_endpoint ! t = None"
    by (simp add: v_circ)
  have u_resp: "resp_failure output_df ! t = None
      \<longleftrightarrow> \<not> ?m ! t \<or> resp_of U sph df_endpoint ! t = None"
    by (simp add: v_resp)
  have b_circ: "circ_failure output_df ! t = None \<longleftrightarrow> \<not> ?m ! t"
    if "is_binary (circ_of U sph df_endpoint)"
  proof -
    have "circ_of U sph df_endpoint ! t \<noteq> None"
      using is_binary_nth [OF that, of t] len [OF ch(2)] assms(2) by simp
    with u_circ show ?thesis by blast
  qed
  have b_resp: "resp_failure output_df ! t = None \<longleftrightarrow> \<not> ?m ! t"
    if "is_binary (resp_of U sph df_endpoint)"
  proof -
    have "resp_of U sph df_endpoint ! t \<noteq> None"
      using is_binary_nth [OF that, of t] len [OF ch(3)] assms(2) by simp
    with u_resp show ?thesis by blast
  qed
  have u_ureg: "urine_reg output_df ! t = None
      \<longleftrightarrow> \<not> ?m ! t \<or> fst (urine_of U sph df_pat) ! t = None"
    by (simp add: v_ureg)
  have u_ubin: "urine_binary output_df ! t = None
      \<longleftrightarrow> \<not> ?m ! t \<or> snd (urine_of U sph df_pat) ! t = None"
    by (simp add: v_ubin)
  have u_los: "los output_df ! t = None \<longleftrightarrow> \<not> ?m ! t"
    by (simp add: v_los)
  show ?thesis
    by (intro conjI impI ch(1) ch(2) ch(3) ch(4) ch(5) ch(6) los_eq v_mort v_phen v_circ v_resp
        v_ureg v_ubin v_los u_mort u_phen u_circ u_resp b_circ b_resp u_ureg u_ubin u_los)
qed

text \<open>The theorem on a stay of 289 timesteps at 12 steps per hour, with the mask true
  everywhere: the mortality entry is unknown at timestep 287, before the horizon, and is the
  status at timestep 288; the failure channels are known there; the remaining length of
  stay ends at 0; the urine targets, for which the sample regressor has no measurement, are
  unknown.\<close>

theorem gen_label_unknown_entries_witness:
  "\<exists>d. fst (gen_label sample_utils 12 quiet_env (sample_stay 7 289)
            \<lparr>ep_rows = sample_endpoint 7 289, ep_datetime_is_index = False\<rparr> (Some True) (Some 1))
          = Inr (Some d)
      \<and> mortality d ! 287 = None \<and> mortality d ! 288 = Some 1
      \<and> phenotyping d ! 288 = Some 1
      \<and> circ_failure d ! 288 \<noteq> None \<and> resp_failure d ! 288 \<noteq> None
      \<and> los d ! 288 = Some 0
      \<and> urine_reg d ! 288 = None
      \<and> hr_status_of sample_utils (sample_stay 7 289) ! 288"
proof -
  let ?ep = "\<lparr>ep_rows = sample_endpoint 7 289, ep_datetime_is_index = False\<rparr>"
  obtain d where d: "fst (gen_label sample_utils 12 quiet_env (sample_stay 7 289) ?ep
            (Some True) (Some 1)) = Inr (Some d)"
    using sample_gen_label [of 289 12] by force
  have len: "length (sample_stay 7 289) = 289" by (simp add: sample_stay_def)
  have ok: "hr_status_of sample_utils (sample_stay 7 289) ! 288"
    by (rule sample_hr_status) simp
  have ok': "hr_status_of sample_utils (sample_stay 7 289) ! 287"
    by (rule sample_hr_status) simp
  have a: "(287::nat) < length (sample_stay 7 289)" and b: "(288::nat) < length (sample_stay 7 289)"
    using len by simp_all
  have last: "linspace (real 289 / real 12) 0 289 ! 288 = 0"
    using linspace_nth [of 289 288 "real 289 / real 12"] by simp
  have ur: "fst (urine_of sample_utils 12 (sample_stay 7 289)) ! 288 = None"
    using len by (simp add: sample_utils_def)
  note t287 = gen_label_unknown_entries [OF d a]
  note t288 = gen_label_unknown_entries [OF d b]
  from t287 have "mortality d ! 287 = (if hr_status_of sample_utils (sample_stay 7 289) ! 287
           then if (287::nat) < 24 * 12 then None else map_option of_bool (Some True) else None)"
    by (elim conjE)
  then have m287: "mortality d ! 287 = None" by simp
  from t288 have "mortality d ! 288 = (if hr_status_of sample_utils (sample_stay 7 289) ! 288
           then if (288::nat) < 24 * 12 then None else map_option of_bool (Some True) else None)"
    by (elim conjE)
  with ok have m288: "mortality d ! 288 = Some 1" by simp
  from t288 have "phenotyping d ! 288 = (if hr_status_of sample_utils (sample_stay 7 289) ! 288
           then if (288::nat) < 24 * 12 then None else Some 1 else None)"
    by (elim conjE)
  with ok have p288: "phenotyping d ! 288 = Some 1" by simp
  from t288 have "is_binary (circ_of sample_utils 12 ?ep)
          \<longrightarrow> (circ_failure d ! 288 = None
                \<longleftrightarrow> \<not> hr_status_of sample_utils (sample_stay 7 289) ! 288)"
    by (elim conjE)
  with ok sample_transition_binary have c288: "circ_failure d ! 288 \<noteq> None" by blast
  from t288 have "is_binary (resp_of sample_utils 12 ?ep)
          \<longrightarrow> (resp_failure d ! 288 = None
                \<longleftrightarrow> \<not> hr_status_of sample_utils (sample_stay 7 289) ! 288)"
    by (elim conjE)
  with ok sample_transition_binary have r288: "resp_failure d ! 288 \<noteq> None" by blast
  from t288 have "los d ! 288 = (if hr_status_of sample_utils (sample_stay 7 289) ! 288
           then Some (linspace (real (length (sample_stay 7 289)) / real 12) 0
                        (length (sample_stay 7 289)) ! 288)
           else None)"
    by (elim conjE)
  with ok len last have l288: "los d ! 288 = Some 0" by simp
  from t288 have "urine_reg d ! 288
        = (if hr_status_of sample_utils (sample_stay 7 289) ! 288
           then fst (urine_of sample_utils 12 (sample_stay 7 289)) ! 288 else None)"
    by (elim conjE)
  with ur have u288: "urine_reg d ! 288 = None" by simp
  from d m287 m288 p288 c288 r288 l288 u288 ok show ?thesis by blast
qed

text \<open>An unknown phenotype group: the entry at timestep 288, which is at the horizon
  (\<open>24 * 12\<close>) and where the mask holds, is unknown.\<close>

theorem unknown_phenotype_counterexample:
  "\<exists>d. fst (gen_label sample_utils 12 quiet_env (sample_stay 7 289)
            \<lparr>ep_rows = sample_endpoint 7 289, ep_datetime_is_index = False\<rparr> (Some True) None)
          = Inr (Some d)
      \<and> phenotyping d ! 288 = None
      \<and> \<not> (288 < 24 * (12::nat))
      \<and> hr_status_of sample_utils (sample_stay 7 289) ! 288"
proof -
  obtain d where d: "fst (gen_label sample_utils 12 quiet_env (sample_stay 7 289)
            \<lparr>ep_rows = sample_endpoint 7 289, ep_datetime_is_index = False\<rparr> (Some True) None)
          = Inr (Some d)"
    using sample_gen_label [of 289 12] by force
  have len: "length (sample_stay 7 289) = 289" by (simp add: sample_stay_def)
  have ok: "hr_status_of sample_utils (sample_stay 7 289) ! 288"
    by (rule sample_hr_status) simp
  have "phenotyping d ! 288 = None"
    using convolve_hr_Inr(3) [OF gen_label_channels(6) [OF d], of 288] len
    by (simp add: unique_label_length unique_label_nth)
  with d ok show ?thesis by auto
qed

end
